theory Spec2Isabelle
  imports Main
begin

section \<open>The review client of \<open>src/app/page.tsx\<close>\<close>

text \<open>
  The page component \<open>Home\<close> holds six state cells, a submit handler
  \<open>handleSubmit\<close> and a render function. The embedding follows the first of
  the two revisions in the source file (the one with \<open>errorType\<close> and
  \<open>retryAfter\<close>). React state is a record that the handler takes and
  returns; thrown values are data; what gets rendered is a list of nodes.
\<close>

subsection \<open>Payload types (lines 6-30)\<close>

text \<open>
  The TypeScript interfaces, field for field. \<open>number\<close> is \<open>int\<close>:
  the fields are counts and line numbers. \<open>T | null\<close> and an optional
  field are \<open>T option\<close>; \<open>Record<string, number>\<close> is a map, where
  a key the object does not have reads as \<open>None\<close> (JavaScript's
  \<open>undefined\<close>). Two fields take a prime: \<open>file'\<close>, as
  \<open>file\<close> is a keyword of Isabelle, and \<open>status'\<close> of
  \<open>ReviewResponse\<close>, \<open>status\<close> being the HTTP status below.
\<close>

record ReviewComment =
  agent :: string
  line :: "int option"
  file' :: "string option"
  message :: string
  severity :: string
  suggestion :: "string option"

record ReviewStats =
  total_comments :: int
  by_agent :: "string \<rightharpoonup> int"
  by_severity :: "string \<rightharpoonup> int"

record ReviewResult =
  comments :: "ReviewComment list"
  stats :: ReviewStats
  summary :: string

record ReviewResponse =
  status' :: string
  review :: ReviewResult

subsection \<open>JavaScript values the handler meets\<close>

text \<open>
  \<open>errorType\<close> is the union of five string literals (line 37).
\<close>

datatype error_type = rate_limit | server | network | validation | general

text \<open>
  A number that \<open>parseInt\<close> returns is an integer or \<open>NaN\<close>;
  \<open>NaN\<close> and 0 are the falsy ones.
\<close>

datatype jsnum = NaN | Num int

fun truthy_num :: "jsnum \<Rightarrow> bool" where
  "truthy_num NaN = False"
| "truthy_num (Num i) = (i \<noteq> 0)"

text \<open>
  A thrown value, as far as the \<open>catch\<close> block of lines 107-113 tells
  them apart: a \<open>TypeError\<close>, another instance of \<open>Error\<close> (a
  plain \<open>Error\<close>, a \<open>SyntaxError\<close>, a \<open>DOMException\<close>),
  each with its message, or a value that is no \<open>Error\<close> at all.
\<close>

datatype exn = TypeError string | Error string | Thrown

fun instanceof_TypeError :: "exn \<Rightarrow> bool" where
  "instanceof_TypeError (TypeError m) = True"
| "instanceof_TypeError (Error m) = False"
| "instanceof_TypeError Thrown = False"

fun instanceof_Error :: "exn \<Rightarrow> bool" where
  "instanceof_Error (TypeError m) = True"
| "instanceof_Error (Error m) = True"
| "instanceof_Error Thrown = False"

fun err_message :: "exn \<Rightarrow> string" where
  "err_message (TypeError m) = m"
| "err_message (Error m) = m"
| "err_message Thrown = []"

text \<open>
  What \<open>response.json()\<close> resolves to when nobody has given it a type
  (\<open>errorData\<close>, line 61): any JSON value. An object is the list of
  its members, read with \<open>map_of\<close>. A number is a double, of which the
  handler only ever asks whether it is truthy and what text \<open>String\<close>
  makes of it: \<open>JNum\<close> carries these two.
\<close>

datatype json =
    JNull
  | JBool bool
  | JNum bool string
  | JStr string
  | JArr "json list"
  | JObj "(string \<times> json) list"

subsection \<open>Strings\<close>

text \<open>\<open>String.prototype.startsWith\<close> and \<open>includes\<close>.\<close>

fun starts_with :: "string \<Rightarrow> string \<Rightarrow> bool" where
  "starts_with s [] = True"
| "starts_with [] (p # ps) = False"
| "starts_with (c # cs) (p # ps) = (c = p \<and> starts_with cs ps)"

fun includes_str :: "string \<Rightarrow> string \<Rightarrow> bool" where
  "includes_str [] needle = (needle = [])"
| "includes_str (c # cs) needle = (starts_with (c # cs) needle \<or> includes_str cs needle)"

text \<open>
  The decimal text of an integer: what a template literal, \<open>String\<close> and
  a React text node make of a number whose value is that integer, as long as its
  magnitude is at most \<open>2 ^ 53\<close>. Beyond that not every integer is a
  double, and from \<open>1e21\<close> on JavaScript prints an exponent; every
  theorem that prints a number carries the bound. \<open>digit_char\<close> is only
  ever applied to a number below 10.
\<close>

definition digit_char :: "nat \<Rightarrow> char" where
  "digit_char d = ''0123456789'' ! d"

fun show_nat :: "nat \<Rightarrow> string" where
  "show_nat n = (if n < 10 then [digit_char n] else show_nat (n div 10) @ [digit_char (n mod 10)])"

declare show_nat.simps [simp del]

definition show_int :: "int \<Rightarrow> string" where
  "show_int i = (if i < 0 then CHR ''-'' # show_nat (nat (- i)) else show_nat (nat i))"

fun show_jsnum :: "jsnum \<Rightarrow> string" where
  "show_jsnum NaN = ''NaN''"
| "show_jsnum (Num i) = show_int i"

subsection \<open>\<open>parseInt\<close>\<close>

text \<open>
  \<open>parseInt(string)\<close> with no radix, as ECMAScript defines it: leading white
  space is skipped, one sign is read, \<open>0x\<close> or \<open>0X\<close> switches to
  radix 16, and the digits up to the first character that is none are the value;
  no digit at all gives \<open>NaN\<close>. A header value is a byte string, each
  byte one code unit up to \<open>0xFF\<close>, so the white space is the part of
  ECMAScript's \<open>WhiteSpace\<close> and \<open>LineTerminator\<close> in that
  range: tab, line feed, vertical tab, form feed, carriage return, space and the
  no-break space \<open>0xA0\<close>. A JavaScript number is a double: the value is
  the exact integer as long as its magnitude is at most \<open>2 ^ 53\<close>.
\<close>

definition is_space :: "char \<Rightarrow> bool" where
  "is_space c =
     (c \<in> set [CHR 0x09, CHR 0x0A, CHR 0x0B, CHR 0x0C, CHR 0x0D, CHR 0x20, CHR 0xA0])"

definition digit_value :: "char \<Rightarrow> nat option" where
  "digit_value c =
     (let k = (of_char c :: nat) in
      if 48 \<le> k \<and> k \<le> 57 then Some (k - 48)
      else if 97 \<le> k \<and> k \<le> 122 then Some (k - 87)
      else if 65 \<le> k \<and> k \<le> 90 then Some (k - 55)
      else None)"

definition radix_digit :: "nat \<Rightarrow> char \<Rightarrow> bool" where
  "radix_digit R c = (case digit_value c of None \<Rightarrow> False | Some d \<Rightarrow> d < R)"

definition digits_value :: "nat \<Rightarrow> string \<Rightarrow> nat" where
  "digits_value R z =
     foldl (\<lambda>a c. a * R + (case digit_value c of None \<Rightarrow> 0 | Some d \<Rightarrow> d)) 0 z"

definition parseInt :: "string \<Rightarrow> jsnum" where
  "parseInt s =
     (let s1 = dropWhile is_space s;
          neg = starts_with s1 ''-'';
          s2 = (if starts_with s1 ''-'' \<or> starts_with s1 ''+'' then tl s1 else s1);
          hex = (starts_with s2 ''0x'' \<or> starts_with s2 ''0X'');
          R = (if hex then 16 else 10);
          s3 = (if hex then drop 2 s2 else s2);
          z = takeWhile (radix_digit R) s3
      in if z = [] then NaN
         else Num ((if neg then - 1 else 1) * int (digits_value R z)))"

subsection \<open>Reading \<open>errorData.detail || fallback\<close>\<close>

text \<open>
  Truthiness and \<open>ToString\<close> of a JSON value. An array prints its elements
  joined by commas, \<open>null\<close> elements as nothing; an object prints as
  \<open>[object Object]\<close>.
\<close>

fun truthy :: "json \<Rightarrow> bool" where
  "truthy JNull = False"
| "truthy (JBool b) = b"
| "truthy (JNum nonzero txt) = nonzero"
| "truthy (JStr s) = (s \<noteq> [])"
| "truthy (JArr xs) = True"
| "truthy (JObj ms) = True"

fun join_comma :: "string list \<Rightarrow> string" where
  "join_comma [] = []"
| "join_comma [x] = x"
| "join_comma (x # y # ys) = x @ '','' @ join_comma (y # ys)"

fun to_string :: "json \<Rightarrow> string" where
  "to_string JNull = ''null''"
| "to_string (JBool b) = (if b then ''true'' else ''false'')"
| "to_string (JNum nonzero txt) = txt"
| "to_string (JStr s) = s"
| "to_string (JArr xs) = join_comma (map (\<lambda>x. if x = JNull then [] else to_string x) xs)"
| "to_string (JObj ms) = ''[object Object]''"

text \<open>
  Reading a property of \<open>null\<close> throws a \<open>TypeError\<close>; the wording is
  the engine's (V8's here; no engine's wording mentions \<open>fetch\<close>). Any other
  value that is not an object, and an object without the member, give
  \<open>undefined\<close>, which is \<open>None\<close>.
\<close>

definition null_detail_message :: string where
  "null_detail_message = ''Cannot read properties of null (reading 'detail')''"

fun get_detail :: "json \<Rightarrow> exn + json option" where
  "get_detail JNull = Inl (TypeError null_detail_message)"
| "get_detail (JObj ms) = Inr (map_of ms ''detail'')"
| "get_detail (JBool b) = Inr None"
| "get_detail (JNum nonzero txt) = Inr None"
| "get_detail (JStr s) = Inr None"
| "get_detail (JArr xs) = Inr None"

text \<open>
  \<open>new Error(errorData.detail || fallback)\<close>: the value that the
  \<open>throw\<close> statement raises. The property is read first, so its
  \<open>TypeError\<close> wins over the \<open>Error\<close> under construction.
\<close>

definition new_Error :: "json \<Rightarrow> string \<Rightarrow> exn" where
  "new_Error errorData fallback =
     (case get_detail errorData of
        Inl e \<Rightarrow> e
      | Inr None \<Rightarrow> Error fallback
      | Inr (Some d) \<Rightarrow> Error (if truthy d then to_string d else fallback))"

subsection \<open>The response and the component's state\<close>

text \<open>
  What \<open>json()\<close> resolves to at line 105, where the handler calls it a
  \<open>ReviewResponse\<close>. The annotation checks nothing at run time: the value
  is one of that shape, or any other JSON value, \<open>null\<close> among them.
\<close>

datatype payload = Review ReviewResponse | Untyped json

text \<open>
  What the handler reads of a \<open>Response\<close>: \<open>status\<close>,
  \<open>statusText\<close>, \<open>headers.get('Retry-After')\<close> (\<open>None\<close> for
  \<open>null\<close>) and \<open>json()\<close>, which resolves or rejects. The handler
  reads the body in two places: into \<open>errorData\<close> (line 61) and into
  \<open>data\<close> (line 105). The record has one field for each reading; a run
  consults only one of them.
\<close>

record response =
  status :: nat
  statusText :: string
  retry_after_header :: "string option"
  json_any :: "exn + json"
  json_data :: "exn + payload"

definition ok :: "response \<Rightarrow> bool" where
  "ok r = (200 \<le> status r \<and> status r \<le> 299)"

text \<open>
  The six \<open>useState\<close> cells of lines 33-38. A cell that is
  \<open>null\<close> is \<open>None\<close>.
\<close>

record state =
  prUrl :: string
  loading :: bool
  result :: "payload option"
  error :: "string option"
  errorType :: "error_type option"
  retryAfter :: "jsnum option"

subsection \<open>\<open>handleSubmit\<close> (lines 41-117)\<close>

text \<open>
  \<open>setResult(data)\<close> of line 106 stores whatever \<open>json()\<close> resolved
  to; storing \<open>null\<close> leaves the cell \<open>null\<close>.
\<close>

definition setResult :: "payload \<Rightarrow> payload option" where
  "setResult data = (if data = Untyped JNull then None else Some data)"

text \<open>Lines 43-47: the five setters that run before \<open>fetch\<close> is called.\<close>

definition reset :: "state \<Rightarrow> state" where
  "reset st = st\<lparr>loading := True, error := None, errorType := None,
                  retryAfter := None, result := None\<rparr>"

text \<open>Lines 59-64: the inner \<open>try\<close>, whose \<open>catch\<close> takes any rejection.\<close>

definition errorData :: "response \<Rightarrow> json" where
  "errorData r =
     (case json_any r of
        Inl e \<Rightarrow> JObj [(''detail'', JStr (statusText r))]
      | Inr j \<Rightarrow> j)"

text \<open>
  Lines 67-102: the \<open>switch\<close>. Every case sets the category, and case 429
  the retry delay when the header is a non-empty string, before it throws; the
  result is the state after the setters and the value thrown.
\<close>

definition on_failure :: "state \<Rightarrow> response \<Rightarrow> state \<times> exn" where
  "on_failure st r =
     (if status r = 429 then
        (st\<lparr>errorType := Some rate_limit,
            retryAfter := (case retry_after_header r of
                             None \<Rightarrow> retryAfter st
                           | Some h \<Rightarrow> if h = [] then retryAfter st else Some (parseInt h))\<rparr>,
         new_Error (errorData r)
           ''Rate limit exceeded. Please wait a moment before trying again.'')
      else if status r = 400 then
        (st\<lparr>errorType := Some validation\<rparr>,
         new_Error (errorData r)
           ''Invalid request. Please check the PR URL and try again.'')
      else if status r = 413 then
        (st\<lparr>errorType := Some validation\<rparr>,
         new_Error (errorData r)
           ''PR is too large to review. Please try a smaller PR.'')
      else if status r = 500 \<or> status r = 502 \<or> status r = 503 \<or> status r = 504 then
        (st\<lparr>errorType := Some server\<rparr>,
         new_Error (errorData r)
           ''Server error. Please try again in a few moments.'')
      else
        (st\<lparr>errorType := Some general\<rparr>,
         new_Error (errorData r)
           (''Error '' @ show_nat (status r) @ '': '' @ statusText r)))"

text \<open>
  Lines 49-106: the body of the outer \<open>try\<close>. What \<open>fetch\<close> does
  with the request is an argument: it rejects or it resolves to a response. The
  result is the state and the value thrown, if any.
\<close>

definition try_block :: "state \<Rightarrow> exn + response \<Rightarrow> state \<times> exn option" where
  "try_block st fetched =
     (case fetched of
        Inl e \<Rightarrow> (st, Some e)
      | Inr r \<Rightarrow>
          if \<not> ok r then (case on_failure st r of (st', e) \<Rightarrow> (st', Some e))
          else (case json_data r of
                  Inl e \<Rightarrow> (st, Some e)
                | Inr data \<Rightarrow> (st\<lparr>result := setResult data\<rparr>, None)))"

text \<open>Lines 107-113.\<close>

definition catch_block :: "state \<Rightarrow> exn \<Rightarrow> state" where
  "catch_block st err =
     (if instanceof_TypeError err \<and> includes_str (err_message err) ''fetch'' then
        st\<lparr>errorType := Some network,
           error := Some ''Cannot connect to the API server. Please check if the server is running.''\<rparr>
      else
        st\<lparr>error := Some (if instanceof_Error err then err_message err
                             else ''An unexpected error occurred'')\<rparr>)"

text \<open>The whole handler; line 115 is the \<open>finally\<close>.\<close>

definition handleSubmit :: "state \<Rightarrow> exn + response \<Rightarrow> state" where
  "handleSubmit st fetched =
     (case try_block (reset st) fetched of
        (st', None) \<Rightarrow> st'\<lparr>loading := False\<rparr>
      | (st', Some err) \<Rightarrow> (catch_block st' err)\<lparr>loading := False\<rparr>)"

text \<open>The state of the first render: the arguments of \<open>useState\<close>.\<close>

definition initial :: state where
  "initial = \<lparr>prUrl = [], loading = False, result = None, error = None,
               errorType = None, retryAfter = None\<rparr>"

subsection \<open>What \<open>Home\<close> renders\<close>

text \<open>
  A JSX child \<open>{a && b}\<close> is \<open>b\<close> when \<open>a\<close> is truthy and
  \<open>a\<close> itself otherwise. React renders \<open>false\<close>, \<open>null\<close>,
  \<open>undefined\<close> and the empty string as nothing, and a number, \<open>0\<close>
  and \<open>NaN\<close> included, as its text. A rendered child is a bare text or a
  paragraph holding a text. Icons and class names are left out, and so is the
  pictograph that opens each of the two hints, with the space after it.
\<close>

datatype node = Text string | P string

text \<open>
  Lines 152-210, the error panel: shown when \<open>error\<close> is truthy. The
  model keeps its title (lines 169-174), the message (line 183) and, as its
  hints, the two children of lines 184-193; the network tip and the retry
  button are not modelled.
\<close>

fun title :: "error_type option \<Rightarrow> string" where
  "title (Some rate_limit) = ''Rate Limit Exceeded''"
| "title (Some validation) = ''Invalid Request''"
| "title (Some network) = ''Connection Error''"
| "title (Some server) = ''Server Error''"
| "title (Some general) = ''Error''"
| "title None = ''Error''"

definition wait_text :: "jsnum \<Rightarrow> string" where
  "wait_text x = ''Please wait approximately '' @ show_jsnum x @ '' seconds before retrying.''"

definition tip_text :: string where
  "tip_text = ''Tip: Wait a few minutes before submitting another review request.''"

text \<open>Lines 184-188: \<open>errorType === 'rate_limit' && retryAfter && (<p>...</p>)\<close>.\<close>

definition wait_hint :: "state \<Rightarrow> node list" where
  "wait_hint st =
     (if errorType st = Some rate_limit then
        (case retryAfter st of
           None \<Rightarrow> []
         | Some x \<Rightarrow> if truthy_num x then [P (wait_text x)] else [Text (show_jsnum x)])
      else [])"

text \<open>Lines 189-193: \<open>errorType === 'rate_limit' && !retryAfter && (<p>...</p>)\<close>.\<close>

definition wait_tip :: "state \<Rightarrow> node list" where
  "wait_tip st =
     (if errorType st = Some rate_limit \<and>
         (case retryAfter st of None \<Rightarrow> True | Some x \<Rightarrow> \<not> truthy_num x)
      then [P tip_text] else [])"

datatype panel = Panel (panel_title: string) (panel_message: string) (panel_hints: "node list")

definition error_panel :: "state \<Rightarrow> panel option" where
  "error_panel st =
     (case error st of
        None \<Rightarrow> None
      | Some e \<Rightarrow> if e = [] then None
                  else Some (Panel (title (errorType st)) e (wait_hint st @ wait_tip st)))"

text \<open>
  Lines 226-251, the statistics strip. \<open>by_severity.high > 0\<close> is
  \<open>false\<close> when the key is absent, \<open>undefined > 0\<close> being false.
\<close>

datatype tile = Tile string int

definition severity_tile :: "ReviewStats \<Rightarrow> string \<Rightarrow> string \<Rightarrow> tile list" where
  "severity_tile s key label =
     (case by_severity s key of
        None \<Rightarrow> []
      | Some n \<Rightarrow> if 0 < n then [Tile label n] else [])"

definition stats_strip :: "ReviewStats \<Rightarrow> tile list" where
  "stats_strip s =
     Tile ''Total Issues'' (total_comments s)
     # severity_tile s ''high'' ''High Severity''
     @ severity_tile s ''medium'' ''Medium Severity''
     @ severity_tile s ''low'' ''Low Severity''"

text \<open>
  Lines 282-288, the location line of a comment: \<open>comment.file && (<p>...</p>)\<close>,
  the paragraph holding \<open>{comment.file}\<close> and
  \<open>{comment.line && ` : Line ${comment.line}`}\<close>.
\<close>

definition line_suffix :: "int option \<Rightarrow> string" where
  "line_suffix l =
     (case l of
        None \<Rightarrow> []
      | Some n \<Rightarrow> if n \<noteq> 0 then '' : Line '' @ show_int n else show_int n)"

definition location :: "ReviewComment \<Rightarrow> node list" where
  "location c =
     (case file' c of
        None \<Rightarrow> []
      | Some f \<Rightarrow> if f = [] then [] else [P (f @ line_suffix (line c))])"

subsection \<open>The classification table of the specification\<close>

text \<open>
  Section 4.2 of the specification as a function of the status alone, to compare
  the handler with.
\<close>

definition failure_category :: "nat \<Rightarrow> error_type" where
  "failure_category s =
     (if s = 429 then rate_limit
      else if s \<in> {400, 413} then validation
      else if s \<in> {500, 502, 503, 504} then server
      else general)"

text \<open>The second operand of \<open>||\<close> in each case of the \<open>switch\<close>.\<close>

definition default_message :: "nat \<Rightarrow> string \<Rightarrow> string" where
  "default_message s txt =
     (if s = 429 then ''Rate limit exceeded. Please wait a moment before trying again.''
      else if s = 400 then ''Invalid request. Please check the PR URL and try again.''
      else if s = 413 then ''PR is too large to review. Please try a smaller PR.''
      else if s \<in> {500, 502, 503, 504} then ''Server error. Please try again in a few moments.''
      else ''Error '' @ show_nat s @ '': '' @ txt)"

subsection \<open>Sample inputs\<close>

text \<open>
  A failure response with a given status, status text, \<open>Retry-After\<close> header
  and body; a review; a success response with a given body; a comment with a
  given file and line. The theorems below are instantiated at these.
\<close>

definition failed :: "nat \<Rightarrow> string \<Rightarrow> string option \<Rightarrow> exn + json \<Rightarrow> response" where
  "failed s txt h b =
     \<lparr>status = s, statusText = txt, retry_after_header = h, json_any = b,
      json_data = (case b of Inl e \<Rightarrow> Inl e | Inr j \<Rightarrow> Inr (Untyped j))\<rparr>"

definition review_with :: "(string \<rightharpoonup> int) \<Rightarrow> ReviewResponse" where
  "review_with sev =
     \<lparr>status' = ''success'',
      review = \<lparr>comments = [],
                stats = \<lparr>total_comments = 3, by_agent = Map.empty, by_severity = sev\<rparr>,
                summary = ''Three findings''\<rparr>\<rparr>"

definition succeeded :: "payload \<Rightarrow> response" where
  "succeeded data =
     \<lparr>status = 200, statusText = ''OK'', retry_after_header = None,
      json_any = (case data of
                    Untyped j \<Rightarrow> Inr j
                  | Review rv \<Rightarrow> Inr (JObj [(''status'', JStr (status' rv))])),
      json_data = Inr data\<rparr>"

definition comment_at :: "string option \<Rightarrow> int option \<Rightarrow> ReviewComment" where
  "comment_at f l =
     \<lparr>agent = ''logic'', line = l, file' = f, message = ''Unused variable'',
      severity = ''low'', suggestion = None\<rparr>"

section \<open>Properties\<close>

subsection \<open>Evaluation and helper lemmas\<close>

lemmas run_defs = handleSubmit_def try_block_def catch_block_def reset_def initial_def
  on_failure_def errorData_def new_Error_def ok_def failed_def succeeded_def setResult_def

lemmas parse_defs = parseInt_def is_space_def radix_digit_def digit_value_def digits_value_def
  Let_def

lemmas render_defs = error_panel_def wait_hint_def wait_tip_def wait_text_def tip_text_def
  show_int_def show_nat.simps digit_char_def

text \<open>
  What the \<open>switch\<close> throws is an \<open>Error\<close>, or the
  \<open>TypeError\<close> of reading \<open>null.detail\<close>; the \<open>catch\<close> block
  takes neither for a network failure.
\<close>

lemma new_Error_cases:
  "new_Error d fb = TypeError null_detail_message \<or> (\<exists>m. new_Error d fb = Error m)"
  by (cases d) (auto simp: new_Error_def split: option.splits)

lemma null_detail_no_fetch: "\<not> includes_str null_detail_message ''fetch''"
  by (simp add: null_detail_message_def)

lemma new_Error_not_network:
  "\<not> (instanceof_TypeError (new_Error d fb) \<and>
      includes_str (err_message (new_Error d fb)) ''fetch'')"
  using new_Error_cases [of d fb] null_detail_no_fetch by auto

lemma new_Error_is_Error: "instanceof_Error (new_Error d fb)"
  using new_Error_cases [of d fb] by auto

lemma catch_new_Error:
  "catch_block st (new_Error d fb) = st\<lparr>error := Some (err_message (new_Error d fb))\<rparr>"
  using new_Error_not_network [of d fb] new_Error_is_Error [of d fb]
  by (auto simp: catch_block_def)

lemma on_failure_thrown:
  "snd (on_failure st r) = new_Error (errorData r) (default_message (status r) (statusText r))"
  by (simp add: on_failure_def default_message_def)

lemma on_failure_errorType:
  "errorType (fst (on_failure st r)) = Some (failure_category (status r))"
  by (simp add: on_failure_def failure_category_def)

lemma on_failure_other:
  "result (fst (on_failure st r)) = result st"
  "error (fst (on_failure st r)) = error st"
  "loading (fst (on_failure st r)) = loading st"
  "prUrl (fst (on_failure st r)) = prUrl st"
  by (simp_all add: on_failure_def)

text \<open>The run of the handler on a response that is not \<open>ok\<close>.\<close>

lemma handleSubmit_failure:
  "\<not> ok r \<Longrightarrow>
   handleSubmit st (Inr r) =
     (fst (on_failure (reset st) r))
       \<lparr>error := Some (err_message (new_Error (errorData r)
                            (default_message (status r) (statusText r)))),
        loading := False\<rparr>"
  using on_failure_thrown [of "reset st" r]
  by (cases "on_failure (reset st) r") (simp add: handleSubmit_def try_block_def catch_new_Error)

lemma handleSubmit_429:
  "status r = 429 \<Longrightarrow>
   handleSubmit st (Inr r) =
     (reset st)\<lparr>errorType := Some rate_limit,
        retryAfter := (case retry_after_header r of
                         None \<Rightarrow> None
                       | Some h \<Rightarrow> if h = [] then None else Some (parseInt h)),
        error := Some (err_message (new_Error (errorData r)
                    ''Rate limit exceeded. Please wait a moment before trying again.'')),
        loading := False\<rparr>"
  by (cases "retry_after_header r")
     (simp_all add: handleSubmit_failure ok_def on_failure_def default_message_def reset_def)

lemma parseInt_Nil: "parseInt [] = NaN"
  by (simp add: parseInt_def)

lemma errorData_malformed:
  "json_any r = Inl e \<Longrightarrow> errorData r = JObj [(''detail'', JStr (statusText r))]"
  by (simp add: errorData_def)

lemma default_message_not_Nil: "default_message s txt \<noteq> []"
  by (simp add: default_message_def)

lemma error_panel_None: "error_panel st = None \<longleftrightarrow> error st = None \<or> error st = Some []"
  by (simp add: error_panel_def split: option.splits)

text \<open>
  \<open>parseInt\<close> reads the decimal numeral of a natural number back: the
  numeral has digits only, so no white space, sign or \<open>0x\<close> is stripped and
  no character is left over.
\<close>

lemma digit_value_digit_char: "d < 10 \<Longrightarrow> digit_value (digit_char d) = Some d"
proof -
  assume "d < 10"
  then have "d \<in> {0, 1, 2, 3, 4, 5, 6, 7, 8, 9}" by auto
  then show ?thesis
    by (auto simp: digit_char_def digit_value_def)
qed

lemma radix_digit_digit_char: "d < 10 \<Longrightarrow> radix_digit 10 (digit_char d)"
  by (simp add: radix_digit_def digit_value_digit_char)

lemma show_nat_digits: "c \<in> set (show_nat n) \<Longrightarrow> radix_digit 10 c"
proof (induction n rule: show_nat.induct)
  case (1 n)
  show ?case
  proof (cases "n < 10")
    case True
    with "1.prems" show ?thesis
      by (simp add: show_nat.simps [of n] radix_digit_digit_char)
  next
    case False
    with "1.prems" "1.IH" show ?thesis
      by (auto simp: show_nat.simps [of n] radix_digit_digit_char)
  qed
qed

lemma digits_value_snoc:
  "digits_value R (z @ [c]) =
     digits_value R z * R + (case digit_value c of None \<Rightarrow> 0 | Some d \<Rightarrow> d)"
  by (simp add: digits_value_def)

lemma digits_value_show_nat: "digits_value 10 (show_nat n) = n"
proof (induction n rule: show_nat.induct)
  case (1 n)
  show ?case
  proof (cases "n < 10")
    case True
    then show ?thesis
      by (simp add: show_nat.simps [of n] digits_value_def digit_value_digit_char)
  next
    case False
    with "1.IH" show ?thesis
      by (simp add: show_nat.simps [of n] digits_value_snoc digit_value_digit_char)
  qed
qed

lemma show_nat_not_Nil: "show_nat n \<noteq> []"
  by (simp add: show_nat.simps [of n])

lemma radix_digit_plain:
  "radix_digit 10 c \<Longrightarrow>
   \<not> is_space c \<and> c \<noteq> CHR ''-'' \<and> c \<noteq> CHR ''+'' \<and> c \<noteq> CHR ''x'' \<and> c \<noteq> CHR ''X''"
  by (auto simp: radix_digit_def digit_value_def is_space_def Let_def split: if_splits)

lemma no_hex_prefix:
  assumes "\<forall>c \<in> set z. radix_digit 10 c"
  shows "\<not> starts_with z [CHR ''0'', x] \<or> (x \<noteq> CHR ''x'' \<and> x \<noteq> CHR ''X'')"
proof (cases z)
  case Nil
  then show ?thesis by simp
next
  case (Cons c cs)
  show ?thesis
  proof (cases cs)
    case Nil
    with Cons show ?thesis by simp
  next
    case (Cons e es)
    with assms \<open>z = c # cs\<close> have "radix_digit 10 e" by simp
    from radix_digit_plain [OF this] Cons \<open>z = c # cs\<close> show ?thesis by auto
  qed
qed

lemma parseInt_digits:
  assumes "z \<noteq> []" and "\<forall>c \<in> set z. radix_digit 10 c"
  shows "parseInt z = Num (int (digits_value 10 z))"
proof -
  obtain c cs where z: "z = c # cs" using assms(1) by (cases z) auto
  from assms(2) z have c: "radix_digit 10 c" by simp
  from radix_digit_plain [OF c] have d: "dropWhile is_space z = z" by (simp add: z)
  have sg: "\<not> starts_with z ''-''" "\<not> starts_with z ''+''"
    using radix_digit_plain [OF c] by (simp_all add: z)
  have hx: "\<not> starts_with z ''0x''" "\<not> starts_with z ''0X''"
    using no_hex_prefix [OF assms(2), of "CHR ''x''"] no_hex_prefix [OF assms(2), of "CHR ''X''"]
    by simp_all
  have tw: "takeWhile (radix_digit 10) z = z"
    using assms(2) by (simp add: takeWhile_eq_all_conv)
  show ?thesis
    using assms(1) by (simp add: parseInt_def d sg hx tw Let_def)
qed

lemma parseInt_show_nat: "parseInt (show_nat n) = Num (int n)"
  using parseInt_digits [of "show_nat n"] show_nat_not_Nil show_nat_digits
  by (simp add: digits_value_show_nat)

lemma severity_tile_mem:
  "Tile l n \<in> set (severity_tile s k l') \<longleftrightarrow> l = l' \<and> by_severity s k = Some n \<and> 0 < n"
  by (auto simp: severity_tile_def split: option.splits)

subsection \<open>Failure classification\<close>

text \<open>
  Claim C1. For a response with a status outside 200-299, the category that
  \<open>handleSubmit\<close> leaves in \<open>errorType\<close> is the one the table of
  section 4.2 gives for the status: 429 is \<open>rate_limit\<close>, 400 and 413 are
  \<open>validation\<close>, 500, 502, 503 and 504 are \<open>server\<close>, every other one
  is \<open>general\<close>. Replacing the body by any other, parsed or not, leaves the
  category as it is.
\<close>

theorem category_by_status:
  "\<not> ok r \<Longrightarrow>
   errorType (handleSubmit st (Inr r)) = Some (failure_category (status r)) \<and>
   errorType (handleSubmit st (Inr (r\<lparr>json_any := b\<rparr>))) = errorType (handleSubmit st (Inr r))"
  by (simp add: handleSubmit_failure on_failure_errorType ok_def)

theorem category_by_status_witness:
  "\<not> ok (failed 503 ''Service Unavailable'' None (Inr (JObj [(''detail'', JStr ''down'')]))) \<and>
   errorType (handleSubmit initial
     (Inr (failed 503 ''Service Unavailable'' None (Inr (JObj [(''detail'', JStr ''down'')])))))
     = Some server \<and>
   errorType (handleSubmit initial (Inr (failed 503 ''Service Unavailable'' None (Inr JNull))))
     = Some server"
  using category_by_status
    [of "failed 503 ''Service Unavailable'' None (Inr (JObj [(''detail'', JStr ''down'')]))"
        initial "Inr JNull"]
  by (simp add: handleSubmit_failure on_failure_errorType ok_def failed_def
      failure_category_def)

text \<open>
  What the \<open>catch\<close> block makes of a rejected \<open>fetch\<close>: a
  \<open>TypeError\<close> whose message contains \<open>fetch\<close> becomes the category
  \<open>network\<close> with the fixed connectivity text, under the title
  \<open>Connection Error\<close>; for every other rejection the category stays
  \<open>null\<close> and the message is the error's own, or
  \<open>An unexpected error occurred\<close> for a value that is no \<open>Error\<close>.
\<close>

lemma catch_of_rejection:
  "let st' = handleSubmit st (Inl e) in
     result st' = None \<and> loading st' = False \<and>
     (if instanceof_TypeError e \<and> includes_str (err_message e) ''fetch''
      then errorType st' = Some network \<and>
           error st' =
             Some ''Cannot connect to the API server. Please check if the server is running.'' \<and>
           error_panel st' = Some (Panel ''Connection Error''
             ''Cannot connect to the API server. Please check if the server is running.'' [])
      else errorType st' = None \<and>
           error st' = Some (if instanceof_Error e then err_message e
                             else ''An unexpected error occurred''))"
  by (simp add: handleSubmit_def try_block_def catch_block_def reset_def error_panel_def
      wait_hint_def wait_tip_def Let_def)

text \<open>
  Claim C2. A \<open>fetch\<close> that fails before any response is received
  rejects with a \<open>TypeError\<close>, and the handler is to classify every such
  failure as \<open>network\<close> and show the fixed connectivity text. It does so
  for the message \<open>Failed to fetch\<close>. For the same failure under WebKit,
  whose message is \<open>Load failed\<close>, it does not: the category stays
  \<open>null\<close>, the text shown is the engine's message, and the panel is
  titled \<open>Error\<close>. Line 108 recognises the failure by the wording of the
  message and misses this case.
\<close>

theorem load_failed_unclassified:
  "instanceof_TypeError (TypeError ''Load failed'') \<and>
   errorType (handleSubmit initial (Inl (TypeError ''Load failed''))) = None \<and>
   error (handleSubmit initial (Inl (TypeError ''Load failed''))) = Some ''Load failed'' \<and>
   error_panel (handleSubmit initial (Inl (TypeError ''Load failed'')))
     = Some (Panel ''Error'' ''Load failed'' []) \<and>
   errorType (handleSubmit initial (Inl (TypeError ''Failed to fetch''))) = Some network \<and>
   error (handleSubmit initial (Inl (TypeError ''Failed to fetch''))) =
     Some ''Cannot connect to the API server. Please check if the server is running.''"
  by (simp add: run_defs error_panel_def wait_hint_def wait_tip_def)

text \<open>
  Claim C3, as amended. For a response with a status outside 200-299 whose
  \<open>json()\<close> rejects, whatever the rejection, the handler completes: the
  category is the one of the status, \<open>result\<close> stays \<open>null\<close>,
  \<open>loading\<close> ends \<open>false\<close>, and the message shown is the status text when
  that is not empty, and the default message of the status when it is.
\<close>

theorem malformed_body_message:
  "\<not> ok r \<Longrightarrow> json_any r = Inl e \<Longrightarrow>
   (let st' = handleSubmit st (Inr r);
        msg = (if statusText r \<noteq> [] then statusText r else default_message (status r) [])
    in errorType st' = Some (failure_category (status r)) \<and>
       result st' = None \<and> loading st' = False \<and>
       error st' = Some msg \<and>
       (\<exists>hints. error_panel st' =
          Some (Panel (title (Some (failure_category (status r)))) msg hints)))"
  by (simp add: handleSubmit_failure on_failure_errorType on_failure_other errorData_malformed
      new_Error_def reset_def error_panel_def default_message_not_Nil Let_def)

theorem malformed_body_message_witness:
  "error (handleSubmit initial
      (Inr (failed 500 ''Internal Server Error'' None (Inl (Error ''Unexpected token <'')))))
     = Some ''Internal Server Error'' \<and>
   errorType (handleSubmit initial
      (Inr (failed 500 ''Internal Server Error'' None (Inl (Error ''Unexpected token <'')))))
     = Some server"
  using malformed_body_message
    [of "failed 500 ''Internal Server Error'' None (Inl (Error ''Unexpected token <''))"
        "Error ''Unexpected token <''" initial]
  by (simp add: ok_def failed_def failure_category_def Let_def)

text \<open>
  The claim as stated fails when the status text is empty, as it is on every
  HTTP/2 response: the message of a 500 is then the default text of the
  \<open>switch\<close>, which owes nothing to the status text.
\<close>

theorem malformed_body_message_counterexample:
  "statusText (failed 500 [] None (Inl (Error ''Unexpected token <''))) = [] \<and>
   error (handleSubmit initial (Inr (failed 500 [] None (Inl (Error ''Unexpected token <'')))))
     = Some ''Server error. Please try again in a few moments.''"
  by (simp add: run_defs)

subsection \<open>The rate-limit hint\<close>

text \<open>
  Claim C4, as amended. Take a 429 response after which the error panel is
  shown. Its title is \<open>Rate Limit Exceeded\<close>. If the \<open>Retry-After\<close>
  header is a string from which \<open>parseInt\<close> reads an integer \<open>n\<close>
  other than 0 (of magnitude up to \<open>2 ^ 53\<close>), and in particular if it is
  the decimal numeral of a positive \<open>n\<close>, then \<open>retryAfter\<close> is \<open>n\<close>
  and the one hint is the paragraph asking to wait approximately \<open>n\<close>
  seconds. If the header is absent or empty, \<open>retryAfter\<close> stays
  \<open>null\<close> and the one hint is the generic tip. If the header is present and
  \<open>parseInt\<close> reads 0 or \<open>NaN\<close> from it, the generic tip is among what
  is shown.
\<close>

theorem retry_after_hint:
  "status r = 429 \<Longrightarrow> error_panel (handleSubmit st (Inr r)) = Some p \<Longrightarrow>
   panel_title p = ''Rate Limit Exceeded'' \<and>
   (\<forall>h n. retry_after_header r = Some h \<and> parseInt h = Num n \<and> n \<noteq> 0 \<and> \<bar>n\<bar> \<le> 2 ^ 53 \<longrightarrow>
      retryAfter (handleSubmit st (Inr r)) = Some (Num n) \<and>
      panel_hints p = [P (wait_text (Num n))]) \<and>
   (\<forall>k. retry_after_header r = Some (show_nat k) \<and> 0 < k \<and> k \<le> 2 ^ 53 \<longrightarrow>
      panel_hints p =
        [P (''Please wait approximately '' @ show_nat k @ '' seconds before retrying.'')]) \<and>
   (retry_after_header r = None \<or> retry_after_header r = Some [] \<longrightarrow>
      retryAfter (handleSubmit st (Inr r)) = None \<and> panel_hints p = [P tip_text]) \<and>
   (\<forall>h. retry_after_header r = Some h \<and> (parseInt h = NaN \<or> parseInt h = Num 0) \<longrightarrow>
      P tip_text \<in> set (panel_hints p))"
proof -
  assume s: "status r = 429" and p: "error_panel (handleSubmit st (Inr r)) = Some p"
  let ?st = "handleSubmit st (Inr r)"
  from p have hints: "panel_hints p = wait_hint ?st @ wait_tip ?st"
    and ttl: "panel_title p = title (errorType ?st)"
    by (auto simp: error_panel_def split: option.splits if_splits)
  have t: "panel_title p = ''Rate Limit Exceeded''"
    using ttl by (simp add: handleSubmit_429 [OF s])
  have a: "\<forall>h n. retry_after_header r = Some h \<and> parseInt h = Num n \<and> n \<noteq> 0 \<and> \<bar>n\<bar> \<le> 2 ^ 53 \<longrightarrow>
      retryAfter ?st = Some (Num n) \<and> panel_hints p = [P (wait_text (Num n))]"
    using parseInt_Nil by (auto simp: hints handleSubmit_429 [OF s] wait_hint_def wait_tip_def)
  have b: "\<forall>k. retry_after_header r = Some (show_nat k) \<and> 0 < k \<and> k \<le> 2 ^ 53 \<longrightarrow>
      panel_hints p =
        [P (''Please wait approximately '' @ show_nat k @ '' seconds before retrying.'')]"
    by (auto simp: hints handleSubmit_429 [OF s] wait_hint_def wait_tip_def wait_text_def
        show_int_def parseInt_show_nat show_nat_not_Nil)
  have c: "retry_after_header r = None \<or> retry_after_header r = Some [] \<longrightarrow>
      retryAfter ?st = None \<and> panel_hints p = [P tip_text]"
    by (auto simp: hints handleSubmit_429 [OF s] wait_hint_def wait_tip_def)
  have d: "\<forall>h. retry_after_header r = Some h \<and> (parseInt h = NaN \<or> parseInt h = Num 0) \<longrightarrow>
      P tip_text \<in> set (panel_hints p)"
    by (auto simp: hints handleSubmit_429 [OF s] wait_hint_def wait_tip_def)
  from t a b c d show ?thesis by blast
qed

theorem retry_after_hint_witness:
  "error_panel (handleSubmit initial
     (Inr (failed 429 ''Too Many Requests'' (Some ''30'')
        (Inr (JObj [(''detail'', JStr ''Slow down'')])))))
   = Some (Panel ''Rate Limit Exceeded'' ''Slow down''
            [P ''Please wait approximately 30 seconds before retrying.'']) \<and>
   error_panel (handleSubmit initial
     (Inr (failed 429 ''Too Many Requests'' None
        (Inr (JObj [(''detail'', JStr ''Slow down'')])))))
   = Some (Panel ''Rate Limit Exceeded'' ''Slow down''
            [P ''Tip: Wait a few minutes before submitting another review request.''])"
  using retry_after_hint
    [of "failed 429 ''Too Many Requests'' (Some ''30'')
           (Inr (JObj [(''detail'', JStr ''Slow down'')]))"
        initial
        "Panel ''Rate Limit Exceeded'' ''Slow down''
           [P ''Please wait approximately 30 seconds before retrying.'']"]
  by (simp add: run_defs parse_defs render_defs)

text \<open>
  The claim as stated fails for \<open>Retry-After: 0\<close>: the header is present and
  parsed, and the hint shown is the generic tip, after the text \<open>0\<close>; no
  hint mentions 0 seconds.
\<close>

theorem retry_after_hint_counterexample:
  "error_panel (handleSubmit initial
     (Inr (failed 429 ''Too Many Requests'' (Some ''0'')
        (Inr (JObj [(''detail'', JStr ''Slow down'')])))))
   = Some (Panel ''Rate Limit Exceeded'' ''Slow down''
            [Text ''0'', P ''Tip: Wait a few minutes before submitting another review request.''])"
  by (simp add: run_defs parse_defs render_defs)

subsection \<open>The state after a submission\<close>

text \<open>
  Claim C5, as amended. After a run of \<open>handleSubmit\<close>, whatever
  \<open>fetch\<close> did, \<open>result\<close> and \<open>error\<close> are never both set.
  A rejected \<open>fetch\<close>, a status outside 200-299 and a success body that
  does not parse each set \<open>error\<close> and leave \<open>result\<close>
  \<open>null\<close>. A response that is \<open>ok\<close> and whose body parses leaves
  \<open>error\<close> \<open>null\<close> and stores the parsed body in \<open>result\<close>,
  whatever it is: so exactly one of the two is set, unless the body is the JSON
  value \<open>null\<close>, which leaves both \<open>null\<close>.
\<close>

theorem result_or_error:
  "let st' = handleSubmit st fetched in
     (result st' = None \<or> error st' = None) \<and>
     (case fetched of
        Inl e \<Rightarrow> result st' = None \<and> error st' \<noteq> None
      | Inr r \<Rightarrow>
          if ok r then
            (case json_data r of
               Inl e \<Rightarrow> result st' = None \<and> error st' \<noteq> None
             | Inr data \<Rightarrow>
                 error st' = None \<and>
                 (if data = Untyped JNull then result st' = None else result st' = Some data))
          else result st' = None \<and> error st' \<noteq> None)"
proof (cases fetched)
  case (Inl e)
  then show ?thesis
    by (simp add: handleSubmit_def try_block_def catch_block_def reset_def Let_def)
next
  case (Inr r)
  show ?thesis
  proof (cases "ok r")
    case True
    with Inr show ?thesis
      by (cases "json_data r")
         (simp_all add: handleSubmit_def try_block_def catch_block_def reset_def setResult_def
            Let_def)
  next
    case False
    with Inr show ?thesis
      by (simp add: handleSubmit_failure on_failure_other reset_def Let_def)
  qed
qed

theorem result_or_error_witness:
  "result (handleSubmit initial (Inr (succeeded (Review (review_with Map.empty)))))
     = Some (Review (review_with Map.empty)) \<and>
   error (handleSubmit initial (Inr (succeeded (Review (review_with Map.empty))))) = None \<and>
   result (handleSubmit initial (Inr (failed 404 ''Not Found'' None (Inr (JObj []))))) = None \<and>
   error (handleSubmit initial (Inr (failed 404 ''Not Found'' None (Inr (JObj [])))))
     = Some ''Error 404: Not Found''"
  using result_or_error [of initial "Inr (succeeded (Review (review_with Map.empty)))"]
        result_or_error [of initial "Inr (failed 404 ''Not Found'' None (Inr (JObj [])))"]
  by (simp add: run_defs show_nat.simps digit_char_def Let_def)

text \<open>
  The claim as stated fails for a 200 response whose body is the JSON value
  \<open>null\<close>: \<open>json()\<close> resolves, nothing is thrown, \<open>setResult(null)\<close>
  runs, and both cells are \<open>null\<close> afterwards.
\<close>

theorem result_or_error_counterexample:
  "ok (succeeded (Untyped JNull)) \<and>
   result (handleSubmit initial (Inr (succeeded (Untyped JNull)))) = None \<and>
   error (handleSubmit initial (Inr (succeeded (Untyped JNull)))) = None"
  by (simp add: run_defs)

text \<open>
  Claim C6. The state in which the request is dispatched, \<open>reset st\<close>, has
  \<open>result\<close>, \<open>error\<close>, \<open>errorType\<close> and \<open>retryAfter\<close> all
  \<open>null\<close>, whatever they were; and nothing of their earlier values
  reaches the state the handler ends in.
\<close>

theorem cleared_before_dispatch:
  "result (reset st) = None \<and> error (reset st) = None \<and>
   errorType (reset st) = None \<and> retryAfter (reset st) = None \<and>
   handleSubmit st fetched =
     (case try_block (reset st) fetched of
        (st', None) \<Rightarrow> st'\<lparr>loading := False\<rparr>
      | (st', Some err) \<Rightarrow> (catch_block st' err)\<lparr>loading := False\<rparr>) \<and>
   handleSubmit (st\<lparr>result := r0, error := e0, errorType := t0, retryAfter := a0\<rparr>) fetched
     = handleSubmit st fetched"
  by (simp add: handleSubmit_def reset_def)

theorem cleared_before_dispatch_witness:
  "retryAfter (reset (handleSubmit initial
      (Inr (failed 429 ''Too Many Requests'' (Some ''30'') (Inr (JObj [])))))) = None \<and>
   retryAfter (handleSubmit initial
      (Inr (failed 429 ''Too Many Requests'' (Some ''30'') (Inr (JObj []))))) = Some (Num 30)"
  using cleared_before_dispatch
    [of "handleSubmit initial
           (Inr (failed 429 ''Too Many Requests'' (Some ''30'') (Inr (JObj []))))"]
  by (simp add: run_defs parse_defs)

text \<open>
  Claim C7. A run of \<open>handleSubmit\<close> is the \<open>try\<close> block, entered
  in the state \<open>reset st\<close>, in which \<open>loading\<close> is \<open>true\<close>,
  then the \<open>catch\<close> block if something was thrown, then the
  \<open>finally\<close>. The flag is still \<open>true\<close> after the \<open>try\<close>
  block and after the \<open>catch\<close> block, and \<open>false\<close> in the state
  the handler ends in, whether \<open>fetch\<close> rejected, with any value, or
  resolved, with any response.
\<close>

theorem loading_released:
  "handleSubmit st fetched =
     (case try_block (reset st) fetched of
        (st', None) \<Rightarrow> st'\<lparr>loading := False\<rparr>
      | (st', Some err) \<Rightarrow> (catch_block st' err)\<lparr>loading := False\<rparr>) \<and>
   loading (reset st) = True \<and>
   loading (fst (try_block (reset st) fetched)) = True \<and>
   (case try_block (reset st) fetched of
      (st', None) \<Rightarrow> True
    | (st', Some err) \<Rightarrow> loading (catch_block st' err) = True) \<and>
   loading (handleSubmit st fetched) = False"
proof -
  have run: "handleSubmit st fetched =
     (case try_block (reset st) fetched of
        (st', None) \<Rightarrow> st'\<lparr>loading := False\<rparr>
      | (st', Some err) \<Rightarrow> (catch_block st' err)\<lparr>loading := False\<rparr>)"
    by (simp add: handleSubmit_def)
  have raised: "loading (reset st) = True"
    by (simp add: reset_def)
  have kept: "loading (fst (try_block (reset st) fetched)) = True"
    by (simp add: try_block_def reset_def on_failure_def split: sum.splits prod.splits)
  have caught: "loading (catch_block s e) = loading s" for s e
    by (simp add: catch_block_def)
  have in_catch: "(case try_block (reset st) fetched of
      (st', None) \<Rightarrow> True
    | (st', Some err) \<Rightarrow> loading (catch_block st' err) = True)"
    using kept by (auto simp: caught split: prod.splits option.splits)
  have released: "loading (handleSubmit st fetched) = False"
    by (simp add: handleSubmit_def split: prod.splits option.splits)
  from run raised kept in_catch released show ?thesis by blast
qed

theorem loading_released_witness:
  "loading (reset initial) = True \<and>
   loading (fst (try_block (reset initial) (Inl (TypeError ''Failed to fetch'')))) = True \<and>
   loading (handleSubmit initial (Inl (TypeError ''Failed to fetch''))) = False"
  using loading_released [of initial "Inl (TypeError ''Failed to fetch'')"]
  by (simp add: try_block_def)

subsection \<open>The result panel\<close>

text \<open>
  Claim C8. The statistics strip starts with the \<open>Total Issues\<close> tile. It
  holds the \<open>High Severity\<close> tile with the count \<open>n\<close> exactly when
  \<open>by_severity.high\<close> is \<open>n\<close> and \<open>n > 0\<close>, and likewise for
  \<open>medium\<close> and \<open>low\<close>. A key that is absent gives the strip that the
  count 0 gives. With \<open>by_severity = {}\<close> the strip is the
  \<open>Total Issues\<close> tile alone.
\<close>

theorem stats_strip_tiles:
  "hd (stats_strip s) = Tile ''Total Issues'' (total_comments s) \<and>
   (Tile ''High Severity'' n \<in> set (stats_strip s)
      \<longleftrightarrow> by_severity s ''high'' = Some n \<and> 0 < n) \<and>
   (Tile ''Medium Severity'' n \<in> set (stats_strip s)
      \<longleftrightarrow> by_severity s ''medium'' = Some n \<and> 0 < n) \<and>
   (Tile ''Low Severity'' n \<in> set (stats_strip s)
      \<longleftrightarrow> by_severity s ''low'' = Some n \<and> 0 < n) \<and>
   stats_strip (s\<lparr>by_severity := (by_severity s)(k := None)\<rparr>)
     = stats_strip (s\<lparr>by_severity := (by_severity s)(k \<mapsto> 0)\<rparr>) \<and>
   (by_severity s = Map.empty \<longrightarrow> stats_strip s = [Tile ''Total Issues'' (total_comments s)])"
proof -
  have total: "hd (stats_strip s) = Tile ''Total Issues'' (total_comments s)"
    by (simp add: stats_strip_def)
  have high: "Tile ''High Severity'' n \<in> set (stats_strip s)
      \<longleftrightarrow> by_severity s ''high'' = Some n \<and> 0 < n"
    by (simp add: stats_strip_def severity_tile_mem)
  have medium: "Tile ''Medium Severity'' n \<in> set (stats_strip s)
      \<longleftrightarrow> by_severity s ''medium'' = Some n \<and> 0 < n"
    by (simp add: stats_strip_def severity_tile_mem)
  have low: "Tile ''Low Severity'' n \<in> set (stats_strip s)
      \<longleftrightarrow> by_severity s ''low'' = Some n \<and> 0 < n"
    by (simp add: stats_strip_def severity_tile_mem)
  have absent: "stats_strip (s\<lparr>by_severity := (by_severity s)(k := None)\<rparr>)
     = stats_strip (s\<lparr>by_severity := (by_severity s)(k \<mapsto> 0)\<rparr>)"
    by (simp add: stats_strip_def severity_tile_def)
  have none: "by_severity s = Map.empty \<longrightarrow>
      stats_strip s = [Tile ''Total Issues'' (total_comments s)]"
    by (simp add: stats_strip_def severity_tile_def)
  from total high medium low absent none show ?thesis by blast
qed

theorem stats_strip_tiles_witness:
  "stats_strip (stats (review (review_with Map.empty))) = [Tile ''Total Issues'' 3] \<and>
   stats_strip (stats (review (review_with [''high'' \<mapsto> 2, ''low'' \<mapsto> 0])))
     = [Tile ''Total Issues'' 3, Tile ''High Severity'' 2]"
  using stats_strip_tiles [of "stats (review (review_with Map.empty))"]
  by (simp add: review_with_def stats_strip_def severity_tile_def)

text \<open>
  Claim C9, as amended. The location of a comment renders as the file name
  alone when \<open>file\<close> is a string that is not empty and \<open>line\<close> is
  \<open>null\<close>; as the file name followed by \<open> : Line N\<close> when \<open>file\<close>
  is a string that is not empty and \<open>line\<close> is an integer \<open>N\<close> other
  than 0, of magnitude at most \<open>2 ^ 53\<close>; and as no location line when
  \<open>file\<close> is \<open>null\<close> or the empty string, so in particular when both
  fields are \<open>null\<close>.
\<close>

theorem location_rendering:
  "(file' c = None \<or> file' c = Some [] \<longrightarrow> location c = []) \<and>
   (\<forall>f. file' c = Some f \<and> f \<noteq> [] \<and> line c = None \<longrightarrow> location c = [P f]) \<and>
   (\<forall>f n. file' c = Some f \<and> f \<noteq> [] \<and> line c = Some n \<and> n \<noteq> 0 \<and> \<bar>n\<bar> \<le> 2 ^ 53 \<longrightarrow>
      location c = [P (f @ '' : Line '' @ show_int n)])"
  by (auto simp: location_def line_suffix_def)

theorem location_rendering_witness:
  "location (comment_at None None) = [] \<and>
   location (comment_at (Some ''a.py'') None) = [P ''a.py''] \<and>
   location (comment_at (Some ''a.py'') (Some 12)) = [P ''a.py : Line 12'']"
  using location_rendering [of "comment_at None None"]
    location_rendering [of "comment_at (Some ''a.py'') None"]
    location_rendering [of "comment_at (Some ''a.py'') (Some 12)"]
  by (simp add: comment_at_def show_int_def show_nat.simps digit_char_def)

text \<open>
  The claim as stated fails where a field is present and falsy. With the file
  \<open>a.py\<close> and the line 0 the paragraph reads \<open>a.py0\<close>, which is neither
  the file name alone nor \<open>a.py : Line 0\<close>; with the empty string for the
  file and the line 12 there is no location line.
\<close>

theorem location_rendering_counterexample:
  "location (comment_at (Some ''a.py'') (Some 0)) = [P ''a.py0''] \<and>
   location (comment_at (Some []) (Some 12)) = []"
  by (simp add: comment_at_def location_def line_suffix_def show_int_def show_nat.simps
      digit_char_def)

text \<open>
  Claim C10. A comment whose \<open>file\<close> is \<open>null\<close> has no location line,
  whatever its \<open>line\<close>.
\<close>

theorem no_file_no_location: "file' c = None \<Longrightarrow> location c = []"
  by (simp add: location_def)

theorem no_file_no_location_witness:
  "file' (comment_at None (Some 12)) = None \<and> location (comment_at None (Some 12)) = []"
  using no_file_no_location [of "comment_at None (Some 12)"] by (simp add: comment_at_def)

end
